theory Spec2Isabelle
  imports Complex_Main "HOL-Library.Sublist"
begin

section \<open>Text operations used by the query engine\<close>

text \<open>
  Python \<open>str\<close> values are modelled as \<open>string\<close>, one \<open>char\<close> per code point; the
  embedding therefore covers texts over the first 256 code points.  The two delimiters
  are the literals of \<open>extract_code\<close> and of the explanation expression.
\<close>

definition DELIM_OPEN :: string where
  "DELIM_OPEN = ''<code>''"

definition DELIM_CLOSE :: string where
  "DELIM_CLOSE = ''</code>''"

text \<open>
  \<open>str.isspace\<close> on one character, for code points below 256: tab, line feed,
  vertical tab, form feed, carriage return, the four separators 28 to 31, space,
  next-line (133) and no-break space (160).
\<close>

definition is_space :: "char \<Rightarrow> bool" where
  "is_space c = (of_char c \<in> {9, 10, 11, 12, 13, 28, 29, 30, 31, 32, 133, 160 :: nat})"

text \<open>\<open>s.strip()\<close>: leading and trailing whitespace removed.\<close>

definition str_strip :: "string \<Rightarrow> string" where
  "str_strip s = rev (dropWhile is_space (rev (dropWhile is_space s)))"

text \<open>
  \<open>s.partition(sep)\<close> at the leftmost occurrence of \<open>sep\<close>: the text before it and
  the text after it, \<open>None\<close> when \<open>sep\<close> does not occur.
\<close>

fun str_partition :: "string \<Rightarrow> string \<Rightarrow> (string \<times> string) option" where
  "str_partition sep [] = (if sep = [] then Some ([], []) else None)"
| "str_partition sep (c # cs) =
     (if prefix sep (c # cs) then Some ([], drop (length sep) (c # cs))
      else map_option (\<lambda>(b, a). (c # b, a)) (str_partition sep cs))"

text \<open>\<open>sub in s\<close> for strings.\<close>

definition str_contains :: "string \<Rightarrow> string \<Rightarrow> bool" where
  "str_contains sub s = (str_partition sub s \<noteq> None)"

text \<open>
  A tag: a non-empty text whose first character occurs nowhere else in it.  Two
  occurrences of a tag in a text cannot overlap.  Both delimiters are tags.
\<close>

definition tag_like :: "string \<Rightarrow> bool" where
  "tag_like d = (d \<noteq> [] \<and> hd d \<notin> set (tl d))"

lemma str_partition_decomp:
  "str_partition sep s = Some (b, a) \<Longrightarrow> s = b @ sep @ a"
proof (induction s arbitrary: b)
  case Nil
  then show ?case by (simp split: if_splits)
next
  case (Cons c cs)
  show ?case
  proof (cases "prefix sep (c # cs)")
    case True
    then obtain r where r: "c # cs = sep @ r" by (auto simp: prefix_def)
    from True Cons.prems have "b = []" "a = drop (length sep) (c # cs)" by simp_all
    with r show ?thesis by simp
  next
    case False
    with Cons.prems obtain b' where
      "str_partition sep cs = Some (b', a)" "b = c # b'" by auto
    with Cons.IH show ?thesis by simp
  qed
qed

text \<open>
  \<open>s.split(sep)\<close> for a non-empty separator: the pieces between successive
  occurrences, scanned from the left.  Python raises \<open>ValueError\<close> on the empty
  separator; the only call in the source passes the close tag, and the empty case is
  given the empty list here.
\<close>

function str_split :: "string \<Rightarrow> string \<Rightarrow> string list" where
  "str_split sep s =
     (if sep = [] then []
      else (case str_partition sep s of
              None \<Rightarrow> [s]
            | Some (b, a) \<Rightarrow> b # str_split sep a))"
  by pat_completeness auto
termination
proof (relation "measure (\<lambda>(sep, s). length s)")
  show "wf (measure (\<lambda>(sep, s). length s))" by simp
next
  fix sep s :: string and x2 x y
  assume "sep \<noteq> []" "str_partition sep s = Some x2" "(x, y) = x2"
  then have "s = x @ sep @ y" by (simp add: str_partition_decomp)
  with \<open>sep \<noteq> []\<close> show "((sep, y), (sep, s)) \<in> measure (\<lambda>(sep, s). length s)"
    by (cases sep) simp_all
qed

declare str_split.simps [simp del]

section \<open>Code extraction\<close>

text \<open>
  \<open>re.search(r'<code>(.*?)</code>', text, re.DOTALL)\<close>, returning group 1.  The engine
  tries start positions from the left; a match starting at a position needs the open
  tag there and a close tag somewhere after it, and the lazy group stops at the nearest
  one.  When the leftmost open tag has no close tag after it, no later one has, so
  the match, if any, starts at the leftmost open tag.
\<close>

definition re_search_code :: "string \<Rightarrow> string option" where
  "re_search_code text =
     (case str_partition DELIM_OPEN text of
        None \<Rightarrow> None
      | Some (before, rest) \<Rightarrow>
          (case str_partition DELIM_CLOSE rest of
             None \<Rightarrow> None
           | Some (group1, after) \<Rightarrow> Some group1))"

definition extract_code :: "string \<Rightarrow> string option" where
  "extract_code response_text =
     (case re_search_code response_text of
        Some group1 \<Rightarrow> Some (str_strip group1)
      | None \<Rightarrow> None)"

text \<open>
  The explanation expression of \<open>ask_financial_question\<close>:
  \<open>response_text.split('</code>')[-1].strip() if '</code>' in response_text else ''\<close>.
\<close>

definition explanation_of :: "string \<Rightarrow> string" where
  "explanation_of response_text =
     (if str_contains DELIM_CLOSE response_text
      then str_strip (last (str_split DELIM_CLOSE response_text))
      else [])"

section \<open>Python values, the store and raised exceptions\<close>

text \<open>
  The process-wide dataset is one \<open>DataFrame\<close> object that several names refer to, so
  frames live in a store and values hold addresses.  A row has the six columns of the
  dataset file; \<open>Date\<close> is a day number and \<open>Amount\<close> an exact rational standing for the
  float of the source.  The pandas module is one object too, shared by every namespace
  that binds \<open>pd\<close>: the store keeps the attributes that code has set on it.  The clock
  is what the system clock reads, in nanoseconds, when a call starts; it stands for what
  a run can read that changes without the program changing it.
\<close>

record row =
  Date :: int
  Department :: string
  Category :: string
  Amount :: rat
  Type :: string
  Description :: string

type_synonym dataframe = "row list"

type_synonym addr = nat

datatype pyval =
    PyNone
  | PyInt int
  | PyStr string
  | PyRef addr
  | PyModule string

type_synonym namespace = "string \<rightharpoonup> pyval"

record store =
  frames :: "addr \<Rightarrow> dataframe"
  pd_attrs :: namespace
  clock :: int

text \<open>
  How a call ends: it returns a value, an exception leaves it, or it never returns.
  The first two carry the store as the call left it.
\<close>

datatype ('e, 'a) outcome =
    Returns 'a store
  | Raises 'e store
  | Hangs

text \<open>
  A raised exception: its class name, whether the class derives from \<open>Exception\<close> (what
  \<open>except Exception\<close> tests) and \<open>str(e)\<close>.  \<open>str(e)\<close> runs the \<open>__str__\<close> of the
  exception's class, which is code like any other: it is a call, which returns a string,
  raises (also when \<open>__str__\<close> returns something that is no string) or never returns.
\<close>

datatype pyexc =
  PyExc (exc_class: string) (is_Exception: bool) (exc_str: "store \<Rightarrow> (pyexc, string) outcome")

type_synonym 'a call = "(pyexc, 'a) outcome"

text \<open>The \<open>__str__\<close> of the builtin exception classes: the message, nothing else.\<close>

definition str_is :: "string \<Rightarrow> store \<Rightarrow> string call" where
  "str_is msg h = Returns msg h"

text \<open>A \<open>__str__\<close> that raises.\<close>

definition str_raises :: "pyexc \<Rightarrow> store \<Rightarrow> string call" where
  "str_raises e h = Raises e h"

text \<open>
  The builtin \<open>exec(code, namespace)\<close> is not code of the repository.  It is a
  parameter of the model: any function from the code text, the namespace it is given and
  the store (the frames, the attributes of the pandas module, the clock) to the way the
  execution ends, returning the namespace as the code left it.
\<close>

type_synonym exec = "string \<Rightarrow> namespace \<Rightarrow> store \<Rightarrow> namespace call"

section \<open>The executor\<close>

record execution_result =
  success :: bool
  result :: pyval
  error :: "string option"

text \<open>
  \<open>execute_code(code, dataframe)\<close>.  The namespace binds \<open>df\<close> to the frame it was
  passed (the address, no copy), \<open>pd\<close> to the pandas module and \<open>result\<close> to \<open>None\<close>.
  \<open>namespace.get('result', ...)\<close> reads the binding after the run and falls back to the
  fixed text only when the key is gone.  \<open>except Exception\<close> catches the exceptions whose
  class derives from \<open>Exception\<close>; any other leaves the function.  The handler evaluates
  \<open>str(e)\<close>; when that raises, the new exception leaves the function.
\<close>

definition NO_RESULT :: string where
  "NO_RESULT = ''Code executed but no result was set.''"

definition initial_namespace :: "addr \<Rightarrow> namespace" where
  "initial_namespace dataframe =
     [''df'' \<mapsto> PyRef dataframe, ''pd'' \<mapsto> PyModule ''pandas'', ''result'' \<mapsto> PyNone]"

definition execute_code :: "exec \<Rightarrow> string \<Rightarrow> addr \<Rightarrow> store \<Rightarrow> execution_result call" where
  "execute_code ex code dataframe h =
     (case ex code (initial_namespace dataframe) h of
        Returns namespace h' \<Rightarrow>
          Returns \<lparr>execution_result.success = True,
                   result = (case namespace ''result'' of Some v \<Rightarrow> v | None \<Rightarrow> PyStr NO_RESULT),
                   error = None\<rparr> h'
      | Raises e h' \<Rightarrow>
          (if is_Exception e
           then (case exc_str e h' of
                   Returns msg h'' \<Rightarrow>
                     Returns \<lparr>success = False, result = PyNone, error = Some msg\<rparr> h''
                 | Raises e' h'' \<Rightarrow> Raises e' h''
                 | Hangs \<Rightarrow> Hangs)
           else Raises e h')
      | Hangs \<Rightarrow> Hangs)"

section \<open>The dataset provider\<close>

text \<open>
  The module global \<open>df\<close> refers to the frame loaded at import; it is a fixed address of
  the store.
\<close>

definition df :: addr where
  "df = 0"

text \<open>\<open>frame[frame['Type'] == typ]['Amount'].sum()\<close>.\<close>

definition amount_sum :: "string \<Rightarrow> dataframe \<Rightarrow> rat" where
  "amount_sum typ frame = sum_list (map Amount (filter (\<lambda>r. Type r = typ) frame))"

text \<open>
  \<open>Series.min()\<close> and \<open>Series.max()\<close> of the date column: \<open>None\<close> is \<open>NaT\<close>, the
  value pandas gives for a column with no entry.
\<close>

fun series_min :: "int list \<Rightarrow> int option" where
  "series_min [] = None"
| "series_min (x # xs) = Some (fold min xs x)"

fun series_max :: "int list \<Rightarrow> int option" where
  "series_max [] = None"
| "series_max (x # xs) = Some (fold max xs x)"

text \<open>
  \<open>strftime('%Y-%m-%d')\<close> on such a value: \<open>NaT\<close> raises \<open>ValueError\<close>; a
  timestamp formats, and the formatted date is kept as its day number.
\<close>

definition NaT_strftime_error :: pyexc where
  "NaT_strftime_error =
     PyExc ''ValueError'' True (str_is ''NaTType does not support strftime'')"

fun strftime :: "int option \<Rightarrow> pyexc + int" where
  "strftime None = Inl NaT_strftime_error"
| "strftime (Some t) = Inr t"

text \<open>\<open>Series.unique()\<close>: the distinct values in order of first appearance.\<close>

fun unique :: "'a list \<Rightarrow> 'a list" where
  "unique [] = []"
| "unique (x # xs) = x # unique (filter (\<lambda>y. y \<noteq> x) xs)"

text \<open>
  The values \<open>get_data_summary\<close> interpolates into its text, in the order of the text.
\<close>

record data_summary =
  total_revenue :: rat
  total_expenses :: rat
  net_income :: rat
  transaction_count :: nat
  date_range :: "int \<times> int"
  departments :: "string list"

text \<open>
  \<open>get_data_summary()\<close> on the global frame.  The two totals are computed first, then
  the date range, whose formatting raises on \<open>NaT\<close>; the exception leaves the function.
\<close>

definition get_data_summary :: "store \<Rightarrow> pyexc + data_summary" where
  "get_data_summary h =
     (let total_revenue = amount_sum ''Revenue'' (frames h df);
          total_expenses = amount_sum ''Expense'' (frames h df)
      in case strftime (series_min (map Date (frames h df))) of
           Inl e \<Rightarrow> Inl e
         | Inr lo \<Rightarrow>
             (case strftime (series_max (map Date (frames h df))) of
                Inl e \<Rightarrow> Inl e
              | Inr hi \<Rightarrow>
                  Inr \<lparr>total_revenue = total_revenue,
                       total_expenses = total_expenses,
                       net_income = total_revenue - total_expenses,
                       transaction_count = length (frames h df),
                       date_range = (lo, hi),
                       departments = unique (map Department (frames h df))\<rparr>))"

section \<open>The orchestrator\<close>

text \<open>
  The completion service is outside the repository: a parameter taking what the prompt
  is built from (the summary and the question) and giving the text of the first content
  block, or the exception the call or the indexing raised.
\<close>

type_synonym service = "data_summary \<Rightarrow> string \<Rightarrow> pyexc + string"

record envelope =
  answer :: pyval
  code :: "string option"
  explanation :: string
  success :: bool
  error :: "string option"

definition NO_CODE_ANSWER :: string where
  "NO_CODE_ANSWER = ''I couldn't generate code to answer that question.''"

definition NO_CODE_ERROR :: string where
  "NO_CODE_ERROR = ''No code block found in response''"

definition no_code_envelope :: "string \<Rightarrow> envelope" where
  "no_code_envelope response_text =
     \<lparr>answer = PyStr NO_CODE_ANSWER, code = None, explanation = response_text,
      success = False, error = Some NO_CODE_ERROR\<rparr>"

text \<open>
  \<open>ask_financial_question(question)\<close>.  \<open>if not code\<close> holds for \<open>None\<close> and for the
  empty string.  The call ends with the store as the executed code left it.
\<close>

definition ask_financial_question ::
    "exec \<Rightarrow> service \<Rightarrow> string \<Rightarrow> store \<Rightarrow> envelope call" where
  "ask_financial_question ex create question h =
     (case get_data_summary h of
        Inl e \<Rightarrow> Raises e h
      | Inr data_context \<Rightarrow>
          (case create data_context question of
             Inl e \<Rightarrow> Raises e h
           | Inr response_text \<Rightarrow>
               (case extract_code response_text of
                  None \<Rightarrow> Returns (no_code_envelope response_text) h
                | Some code_text \<Rightarrow>
                    if code_text = [] then Returns (no_code_envelope response_text) h
                    else
                      (let explanation_text = explanation_of response_text
                       in case execute_code ex code_text df h of
                            Returns execution_result h' \<Rightarrow>
                              (if execution_result.success execution_result
                               then Returns
                                      \<lparr>answer = execution_result.result execution_result,
                                       code = Some code_text, explanation = explanation_text,
                                       success = True, error = None\<rparr> h'
                               else Returns
                                      \<lparr>answer = PyStr (''I wrote code but it had an error: ''
                                                 @ (case execution_result.error execution_result of
                                                      Some msg \<Rightarrow> msg | None \<Rightarrow> ''None'')),
                                       code = Some code_text, explanation = explanation_text,
                                       success = False,
                                       error = execution_result.error execution_result\<rparr> h')
                          | Raises e h' \<Rightarrow> Raises e h'
                          | Hangs \<Rightarrow> Hangs))))"

text \<open>
  Calling twice: the second call starts from the store the first one left, at a later
  reading of the clock.
\<close>

definition ask_twice ::
    "exec \<Rightarrow> service \<Rightarrow> string \<Rightarrow> int \<Rightarrow> store \<Rightarrow> (envelope \<times> envelope) call" where
  "ask_twice ex create question later h =
     (case ask_financial_question ex create question h of
        Returns first h1 \<Rightarrow>
          (case ask_financial_question ex create question (h1\<lparr>clock := later\<rparr>) of
             Returns second h2 \<Rightarrow> Returns (first, second) h2
           | Raises e h2 \<Rightarrow> Raises e h2
           | Hangs \<Rightarrow> Hangs)
      | Raises e h1 \<Rightarrow> Raises e h1
      | Hangs \<Rightarrow> Hangs)"

text \<open>
  What a call returned, when it returned.  Executing a code text on a store is
  repeatable when the run leaves the dataset and the attributes of the pandas module as
  it found them, and returns the same result whatever the clock reads.
\<close>

fun returned :: "'a call \<Rightarrow> 'a option" where
  "returned (Returns r h) = Some r"
| "returned (Raises e h) = None"
| "returned Hangs = None"

definition repeatable :: "exec \<Rightarrow> string \<Rightarrow> store \<Rightarrow> bool" where
  "repeatable ex code_text h =
     ((\<forall>r h'. execute_code ex code_text df h = Returns r h' \<longrightarrow>
          frames h' = frames h \<and> pd_attrs h' = pd_attrs h)
      \<and> (\<forall>t. returned (execute_code ex code_text df (h\<lparr>clock := t\<rparr>))
             = returned (execute_code ex code_text df h)))"

section \<open>A fragment of Python for concrete runs\<close>

text \<open>
  The general results below hold for every \<open>exec\<close>.  Concrete runs need one: \<open>py_exec\<close>
  gives Python's behaviour on a few one-line programs, enough to exhibit each way an
  execution can end.  Text outside the list is outside the fragment and is rejected the
  way unparsable text is; nothing below runs \<open>py_exec\<close> on such text.
\<close>

definition is_digit :: "char \<Rightarrow> bool" where
  "is_digit c = (48 \<le> (of_char c :: nat) \<and> (of_char c :: nat) \<le> 57)"

text \<open>A decimal integer literal: digits, with no leading zero unless all are zero.\<close>

definition is_int_literal :: "string \<Rightarrow> bool" where
  "is_int_literal ds =
     (ds \<noteq> [] \<and> list_all is_digit ds \<and>
      (hd ds \<noteq> CHR ''0'' \<or> list_all (\<lambda>c. c = CHR ''0'') ds))"

definition int_literal :: "string \<Rightarrow> int" where
  "int_literal ds = foldl (\<lambda>n c. 10 * n + (of_char c - 48)) 0 ds"

definition py_raise :: "string \<Rightarrow> bool \<Rightarrow> string \<Rightarrow> store \<Rightarrow> namespace call" where
  "py_raise cls catchable msg h = Raises (PyExc cls catchable (str_is msg)) h"

fun frame_of :: "pyval option \<Rightarrow> addr option" where
  "frame_of (Some (PyRef a)) = Some a"
| "frame_of v = None"

text \<open>
  \<open>getattr(pd, '_n', 0)\<close> as an operand of \<open>+ 1\<close>: the default 0 when the module has
  no such attribute, the attribute when it is an integer.
\<close>

fun counter_of :: "pyval option \<Rightarrow> int option" where
  "counter_of None = Some 0"
| "counter_of (Some (PyInt n)) = Some n"
| "counter_of (Some v) = None"

definition BUMP_COUNTER :: string where
  "BUMP_COUNTER = ''pd._n = getattr(pd, '_n', 0) + 1; result = pd._n''"

definition READ_CLOCK :: string where
  "READ_CLOCK = ''import time; result = time.time_ns()''"

definition RAISE_UNPRINTABLE :: string where
  "RAISE_UNPRINTABLE = ''raise type('E', (Exception,), {'__str__': lambda s: 1/0})()''"

definition division_by_zero :: pyexc where
  "division_by_zero = PyExc ''ZeroDivisionError'' True (str_is ''division by zero'')"

definition py_exec :: exec where
  "py_exec code_text namespace h =
     (if code_text = [] \<or> code_text = ''pass'' then Returns namespace h
      else if code_text = ''while True: pass'' then Hangs
      else if code_text = ''del result'' then
        (case namespace ''result'' of
           None \<Rightarrow> py_raise ''NameError'' True ''name 'result' is not defined'' h
         | Some v \<Rightarrow> Returns (namespace(''result'' := None)) h)
      else if code_text = ''result = None'' then Returns (namespace(''result'' \<mapsto> PyNone)) h
      else if code_text = ''result = 1/0'' then Raises division_by_zero h
      else if code_text = ''raise Exception()'' then py_raise ''Exception'' True [] h
      else if code_text = ''raise SystemExit()'' then py_raise ''SystemExit'' False [] h
      else if code_text = RAISE_UNPRINTABLE then
        Raises (PyExc ''E'' True (str_raises division_by_zero)) h
      else if code_text = READ_CLOCK then
        Returns (namespace(''time'' \<mapsto> PyModule ''time'', ''result'' \<mapsto> PyInt (clock h))) h
      else if code_text = BUMP_COUNTER \<and> namespace ''pd'' = Some (PyModule ''pandas'')
              \<and> counter_of (pd_attrs h ''_n'') \<noteq> None
      then Returns (namespace(''result'' \<mapsto> PyInt (the (counter_of (pd_attrs h ''_n'')) + 1)))
             (h\<lparr>pd_attrs := (pd_attrs h)(''_n'' \<mapsto> PyInt (the (counter_of (pd_attrs h ''_n'')) + 1))\<rparr>)
      else if code_text = ''df.drop(df.index, inplace=True)'' \<and> frame_of (namespace ''df'') \<noteq> None
      then Returns namespace (h\<lparr>frames := (frames h)(the (frame_of (namespace ''df'')) := [])\<rparr>)
      else if prefix ''result = '' code_text \<and> is_int_literal (drop 9 code_text) then
        Returns (namespace(''result'' \<mapsto> PyInt (int_literal (drop 9 code_text)))) h
      else py_raise ''SyntaxError'' True ''invalid syntax'' h)"

section \<open>Concrete inputs\<close>

text \<open>
  A store whose dataset has no row, one whose dataset has one revenue row (in both,
  nothing has been set on the pandas module and the clock reads 0), the summary of the
  latter, and a completion service that answers every prompt with the same text.
\<close>

definition empty_store :: store where
  "empty_store = \<lparr>frames = (\<lambda>a. []), pd_attrs = Map.empty, clock = 0\<rparr>"

definition sample_row :: row where
  "sample_row =
     \<lparr>Date = 0, Department = ''Sales'', Category = ''Product Revenue'', Amount = 100,
      Type = ''Revenue'', Description = ''Invoice''\<rparr>"

definition sample_store :: store where
  "sample_store = empty_store\<lparr>frames := (frames empty_store)(df := [sample_row])\<rparr>"

definition sample_summary :: data_summary where
  "sample_summary =
     \<lparr>total_revenue = 100, total_expenses = 0, net_income = 100, transaction_count = 1,
      date_range = (0, 0), departments = [''Sales'']\<rparr>"

definition fixed_reply :: "string \<Rightarrow> service" where
  "fixed_reply response_text data_context question = Inr response_text"

definition BUMP_REPLY :: string where
  "BUMP_REPLY = DELIM_OPEN @ BUMP_COUNTER @ DELIM_CLOSE"

definition bumped_store :: "int \<Rightarrow> store" where
  "bumped_store n = sample_store\<lparr>pd_attrs := [''_n'' \<mapsto> PyInt n]\<rparr>"

definition CLOCK_REPLY :: string where
  "CLOCK_REPLY = DELIM_OPEN @ READ_CLOCK @ DELIM_CLOSE"

section \<open>Facts about the text operations\<close>

lemma tag_like_DELIM_OPEN: "tag_like DELIM_OPEN"
  by (simp add: tag_like_def DELIM_OPEN_def)

lemma tag_like_DELIM_CLOSE: "tag_like DELIM_CLOSE"
  by (simp add: tag_like_def DELIM_CLOSE_def)

lemma str_partition_None_iff: "str_partition sep s = None \<longleftrightarrow> \<not> sublist sep s"
  by (induction s) (auto simp: sublist_Cons_right)

lemma str_contains_iff: "str_contains sub s \<longleftrightarrow> sublist sub s"
  by (simp add: str_contains_def str_partition_None_iff)

lemma str_partition_before:
  "str_partition sep s = Some (b, a) \<Longrightarrow> sep \<noteq> [] \<Longrightarrow> \<not> sublist sep b"
proof (induction s arbitrary: b)
  case Nil
  then show ?case by simp
next
  case (Cons c cs)
  show ?case
  proof (cases "prefix sep (c # cs)")
    case True
    with Cons.prems have "b = []" by simp
    with \<open>sep \<noteq> []\<close> show ?thesis by simp
  next
    case False
    with Cons.prems obtain b' where
      b': "str_partition sep cs = Some (b', a)" "b = c # b'" by auto
    from str_partition_decomp [OF b'(1)] have cs: "cs = b' @ sep @ a" .
    have "\<not> prefix sep (c # b')"
    proof
      assume "prefix sep (c # b')"
      then have "prefix sep ((c # b') @ sep @ a)" by (rule prefix_prefix)
      with cs False show False by simp
    qed
    moreover from Cons.IH [OF b'(1) \<open>sep \<noteq> []\<close>] have "\<not> sublist sep b'" .
    ultimately show ?thesis using b'(2) by (simp add: sublist_Cons_right)
  qed
qed

lemma tag_no_overlap:
  assumes "tag_like d" and "\<not> prefix d (x # p)"
  shows "\<not> prefix d ((x # p) @ d @ s)"
proof
  assume "prefix d ((x # p) @ d @ s)"
  then have "prefix d (x # p) \<or> (\<exists>us. d = (x # p) @ us \<and> prefix us (d @ s))"
    by (simp only: prefix_append)
  with assms(2) obtain us where us: "d = (x # p) @ us" "prefix us (d @ s)"
    by blast
  from us(1) assms(2) have "us \<noteq> []" by auto
  then obtain u us' where u: "us = u # us'" by (cases us) auto
  from assms(1) obtain c ds where d: "d = c # ds" "c \<notin> set ds"
    by (cases d) (auto simp: tag_like_def)
  from us(2) u d have "u = c" by simp
  moreover from us(1) u d have "u \<in> set ds" by auto
  ultimately show False using d by simp
qed

lemma str_partition_at_tag:
  "tag_like d \<Longrightarrow> \<not> sublist d pre \<Longrightarrow> str_partition d (pre @ d @ s) = Some (pre, s)"
proof (induction pre)
  case Nil
  then obtain c ds where "d = c # ds" by (cases d) (auto simp: tag_like_def)
  then show ?case by simp
next
  case (Cons x p)
  from Cons.prems(2) have np: "\<not> prefix d (x # p)" and ns: "\<not> sublist d p"
    by (simp_all add: sublist_Cons_right)
  from tag_no_overlap [OF Cons.prems(1) np] have "\<not> prefix d (x # p @ d @ s)" by simp
  with Cons.IH [OF Cons.prems(1) ns] show ?case by simp
qed

lemma str_split_no_tag:
  assumes "d \<noteq> []" and "\<not> sublist d s"
  shows "str_split d s = [s]"
proof -
  from assms(2) have "str_partition d s = None" by (simp add: str_partition_None_iff)
  with assms(1) show ?thesis by (subst str_split.simps) simp
qed

lemma str_split_not_Nil: "d \<noteq> [] \<Longrightarrow> str_split d s \<noteq> []"
  by (subst str_split.simps) (simp split: option.splits)

lemma last_str_split:
  "tag_like d \<Longrightarrow> \<not> sublist d suf \<Longrightarrow> last (str_split d (x @ d @ suf)) = suf"
proof (induction "length x" arbitrary: x rule: less_induct)
  case less
  from less.prems(1) have dne: "d \<noteq> []" by (simp add: tag_like_def)
  show ?case
  proof (cases "sublist d x")
    case False
    from str_partition_at_tag [OF less.prems(1) False]
    have "str_partition d (x @ d @ suf) = Some (x, suf)" .
    then have "str_split d (x @ d @ suf) = x # str_split d suf"
      using dne by (subst str_split.simps) simp
    with str_split_no_tag [OF dne less.prems(2)] show ?thesis by simp
  next
    case True
    then obtain b a where ba: "str_partition d x = Some (b, a)"
      by (cases "str_partition d x") (auto simp: str_partition_None_iff)
    from str_partition_decomp [OF ba] have x: "x = b @ d @ a" .
    from str_partition_before [OF ba dne] have nb: "\<not> sublist d b" .
    from str_partition_at_tag [OF less.prems(1) nb]
    have "str_partition d (b @ d @ (a @ d @ suf)) = Some (b, a @ d @ suf)" .
    with x have "str_split d (x @ d @ suf) = b # str_split d (a @ d @ suf)"
      using dne by (subst str_split.simps) simp
    moreover from x dne have "length a < length x" by (cases d) simp_all
    then have "last (str_split d (a @ d @ suf)) = suf"
      using less.hyps less.prems by blast
    ultimately show ?thesis using str_split_not_Nil [OF dne] by simp
  qed
qed

lemma re_search_code_pair:
  "\<not> sublist DELIM_OPEN pre \<Longrightarrow> \<not> sublist DELIM_CLOSE body \<Longrightarrow>
   re_search_code (pre @ DELIM_OPEN @ body @ DELIM_CLOSE @ suf) = Some body"
  by (simp add: re_search_code_def str_partition_at_tag tag_like_DELIM_OPEN
      tag_like_DELIM_CLOSE)

lemma explanation_of_pair:
  "\<not> sublist DELIM_CLOSE suf \<Longrightarrow>
   explanation_of (pre @ DELIM_OPEN @ body @ DELIM_CLOSE @ suf) = str_strip suf"
proof -
  assume ns: "\<not> sublist DELIM_CLOSE suf"
  have "sublist DELIM_CLOSE ((pre @ DELIM_OPEN @ body) @ DELIM_CLOSE @ suf)"
    by (rule sublist_appendI)
  then have c: "str_contains DELIM_CLOSE (pre @ DELIM_OPEN @ body @ DELIM_CLOSE @ suf)"
    by (simp add: str_contains_iff)
  from last_str_split [OF tag_like_DELIM_CLOSE ns, of "pre @ DELIM_OPEN @ body"]
  have "last (str_split DELIM_CLOSE (pre @ DELIM_OPEN @ body @ DELIM_CLOSE @ suf)) = suf"
    by simp
  with c show ?thesis by (simp add: explanation_of_def)
qed

lemma str_strip_blank:
  assumes "list_all is_space s"
  shows "str_strip s = []"
proof -
  from assms have blank: "dropWhile is_space s = []"
    by (induction s) simp_all
  show ?thesis unfolding str_strip_def blank by simp
qed

lemma blank_no_close:
  assumes "list_all is_space blank"
  shows "\<not> sublist DELIM_CLOSE blank"
proof
  assume "sublist DELIM_CLOSE blank"
  then have "set DELIM_CLOSE \<subseteq> set blank" by (rule set_mono_sublist)
  then have "CHR ''<'' \<in> set blank" by (auto simp: DELIM_CLOSE_def)
  with assms have "is_space CHR ''<''" by (simp add: list_all_iff)
  then show False by (simp add: is_space_def)
qed

section \<open>Code extraction: the matched pair\<close>

text \<open>
  C4, as stated, fails at three inputs: a close tag in the text after the pair moves the
  explanation to the text after the last close tag; an open tag in the text before the
  pair makes the match start earlier; a close tag in the code ends the lazy group early.
\<close>

theorem extract_round_trip_counterexample:
  "extract_code ([] @ DELIM_OPEN @ ''x'' @ DELIM_CLOSE @ ''a</code>b'') = Some ''x''
   \<and> explanation_of ([] @ DELIM_OPEN @ ''x'' @ DELIM_CLOSE @ ''a</code>b'') = ''b''
   \<and> str_strip ''a</code>b'' = ''a</code>b''
   \<and> extract_code (''<code>'' @ DELIM_OPEN @ ''x'' @ DELIM_CLOSE @ []) = Some ''<code>x''
   \<and> extract_code ([] @ DELIM_OPEN @ ''x</code>y'' @ DELIM_CLOSE @ []) = Some ''x''
   \<and> str_strip ''x</code>y'' = ''x</code>y''"
  by (simp add: extract_code_def re_search_code_def explanation_of_def str_contains_def
      str_strip_def is_space_def DELIM_OPEN_def DELIM_CLOSE_def str_split.simps)

text \<open>
  C4, amended.  When the text before the pair holds no open tag and the code holds no
  close tag, the extracted code is the code trimmed; when moreover the text after the
  pair holds no close tag, the explanation is that text trimmed.  The code is what lies
  between the leftmost open tag and the nearest close tag after it.
\<close>

theorem extract_round_trip:
  assumes "\<not> sublist DELIM_OPEN pre" and "\<not> sublist DELIM_CLOSE body"
  shows "extract_code (pre @ DELIM_OPEN @ body @ DELIM_CLOSE @ suf) = Some (str_strip body)
    \<and> (\<not> sublist DELIM_CLOSE suf \<longrightarrow>
         explanation_of (pre @ DELIM_OPEN @ body @ DELIM_CLOSE @ suf) = str_strip suf)"
  using assms by (simp add: extract_code_def re_search_code_pair explanation_of_pair)

theorem extract_round_trip_witness:
  "\<not> sublist DELIM_OPEN ''Sure. '' \<and> \<not> sublist DELIM_CLOSE '' result = 1 ''
   \<and> extract_code (''Sure. '' @ DELIM_OPEN @ '' result = 1 '' @ DELIM_CLOSE @ '' Sets it. '')
       = Some ''result = 1''
   \<and> explanation_of (''Sure. '' @ DELIM_OPEN @ '' result = 1 '' @ DELIM_CLOSE @ '' Sets it. '')
       = ''Sets it.''"
proof -
  have a: "\<not> sublist DELIM_OPEN ''Sure. ''"
    by (simp add: str_partition_None_iff [symmetric] DELIM_OPEN_def)
  have b: "\<not> sublist DELIM_CLOSE '' result = 1 ''"
    by (simp add: str_partition_None_iff [symmetric] DELIM_CLOSE_def)
  have c: "\<not> sublist DELIM_CLOSE '' Sets it. ''"
    by (simp add: str_partition_None_iff [symmetric] DELIM_CLOSE_def)
  have s1: "str_strip '' result = 1 '' = ''result = 1''"
    by (simp add: str_strip_def is_space_def)
  have s2: "str_strip '' Sets it. '' = ''Sets it.''"
    by (simp add: str_strip_def is_space_def)
  from extract_round_trip [OF a b, of "'' Sets it. ''"] c s1 s2 a b
  show ?thesis by simp
qed

text \<open>
  C5, as stated, fails: a text with a close tag and no open tag has no pair, no code is
  extracted, and the explanation expression is the trimmed text after the close tag.
\<close>

theorem extract_absent_counterexample:
  "\<not> sublist DELIM_OPEN ''x</code>y'' \<and> extract_code ''x</code>y'' = None
   \<and> explanation_of ''x</code>y'' = ''y''"
  by (simp add: str_partition_None_iff [symmetric] extract_code_def re_search_code_def
      explanation_of_def str_contains_def str_strip_def is_space_def DELIM_OPEN_def
      DELIM_CLOSE_def str_split.simps)

text \<open>
  C5, amended.  For a text with no delimiter pair, no code is extracted (an outcome,
  not an exception); the explanation expression is the empty string when the text holds
  no close tag.
\<close>

theorem extract_absent:
  assumes "\<not> (\<exists>pre body suf. response_text = pre @ DELIM_OPEN @ body @ DELIM_CLOSE @ suf)"
  shows "extract_code response_text = None
    \<and> (\<not> sublist DELIM_CLOSE response_text \<longrightarrow> explanation_of response_text = [])"
proof -
  have "re_search_code response_text = None"
  proof (rule ccontr)
    assume "re_search_code response_text \<noteq> None"
    then obtain before rest group1 after where
      "str_partition DELIM_OPEN response_text = Some (before, rest)"
      "str_partition DELIM_CLOSE rest = Some (group1, after)"
      by (auto simp: re_search_code_def split: option.splits)
    then have "response_text = before @ DELIM_OPEN @ group1 @ DELIM_CLOSE @ after"
      by (auto dest!: str_partition_decomp)
    with assms show False by blast
  qed
  then show ?thesis
    by (simp add: extract_code_def explanation_of_def str_contains_iff)
qed

theorem extract_absent_witness:
  "\<not> (\<exists>pre body suf. ''see <code>x = 1'' = pre @ DELIM_OPEN @ body @ DELIM_CLOSE @ suf)
   \<and> \<not> sublist DELIM_CLOSE ''see <code>x = 1''
   \<and> extract_code ''see <code>x = 1'' = None \<and> explanation_of ''see <code>x = 1'' = []"
proof -
  have n: "\<not> sublist DELIM_CLOSE ''see <code>x = 1''"
    by (simp add: str_partition_None_iff [symmetric] DELIM_CLOSE_def)
  have a: "\<not> (\<exists>pre body suf. ''see <code>x = 1'' = pre @ DELIM_OPEN @ body @ DELIM_CLOSE @ suf)"
  proof
    assume "\<exists>pre body suf. ''see <code>x = 1'' = pre @ DELIM_OPEN @ body @ DELIM_CLOSE @ suf"
    then obtain pre body suf where
      "''see <code>x = 1'' = (pre @ DELIM_OPEN @ body) @ DELIM_CLOSE @ suf" by auto
    then have "sublist DELIM_CLOSE ''see <code>x = 1''" by (metis sublist_appendI)
    with n show False by blast
  qed
  from extract_absent [OF a] n a show ?thesis by blast
qed

section \<open>The executor: how a run ends\<close>

text \<open>The one-row dataset has a summary.\<close>

lemma get_data_summary_sample: "get_data_summary sample_store = Inr sample_summary"
  by (simp add: get_data_summary_def sample_store_def sample_summary_def sample_row_def
      amount_sum_def)

text \<open>
  Normal completion, for every \<open>exec\<close>: success, the value bound to \<open>result\<close> when
  the run ends, and the store as the run left it.
\<close>

lemma execute_code_Returns:
  "ex code_text (initial_namespace dataframe) h = Returns namespace h' \<Longrightarrow>
   execute_code ex code_text dataframe h =
     Returns \<lparr>execution_result.success = True,
              result = (case namespace ''result'' of Some v \<Rightarrow> v | None \<Rightarrow> PyStr NO_RESULT),
              error = None\<rparr> h'"
  by (simp add: execute_code_def)

text \<open>
  C2.  A run that completes normally and never assigns \<open>result\<close>: the executor reports
  success, and the value is Python's \<open>None\<close>, the binding the namespace started with,
  not the text \<open>NO_RESULT\<close> that the \<open>get\<close> default holds for a run with no result.
\<close>

theorem execute_code_result_never_set:
  "execute_code py_exec ''pass'' dataframe h =
     Returns \<lparr>execution_result.success = True, result = PyNone, error = None\<rparr> h"
  by (simp add: execute_code_def py_exec_def BUMP_COUNTER_def RAISE_UNPRINTABLE_def READ_CLOCK_def initial_namespace_def)




section \<open>The summary of an empty dataset\<close>

text \<open>
  C7, as stated, fails: on the dataset with no row \<open>get_data_summary\<close> raises, from
  formatting the minimum of no dates.
\<close>

theorem get_data_summary_empty_counterexample:
  "get_data_summary empty_store = Inl NaT_strftime_error"
  by (simp add: get_data_summary_def empty_store_def)

text \<open>
  C7, amended.  For the empty dataset the revenue total, the expense total and their
  difference are 0 and the department list is empty, and \<open>get_data_summary\<close> raises
  \<open>ValueError\<close> when it formats the date range, so no summary is returned.
\<close>

theorem get_data_summary_empty:
  "frames h df = [] \<Longrightarrow>
   amount_sum ''Revenue'' (frames h df) = 0 \<and> amount_sum ''Expense'' (frames h df) = 0 \<and>
   amount_sum ''Revenue'' (frames h df) - amount_sum ''Expense'' (frames h df) = 0 \<and>
   unique (map Department (frames h df)) = [] \<and>
   get_data_summary h = Inl NaT_strftime_error"
  by (simp add: get_data_summary_def amount_sum_def)

theorem get_data_summary_empty_witness:
  "frames empty_store df = [] \<and>
   amount_sum ''Revenue'' (frames empty_store df) = 0 \<and>
   amount_sum ''Expense'' (frames empty_store df) = 0 \<and>
   amount_sum ''Revenue'' (frames empty_store df)
     - amount_sum ''Expense'' (frames empty_store df) = 0 \<and>
   unique (map Department (frames empty_store df)) = [] \<and>
   get_data_summary empty_store = Inl NaT_strftime_error"
proof -
  have e: "frames empty_store df = []" by (simp add: empty_store_def)
  from get_data_summary_empty [where h = empty_store, OF e] e show ?thesis by blast
qed

section \<open>The dataset is shared with the executed code\<close>

text \<open>
  C8.  There is a code text on which the executor succeeds and the frame it was passed
  has lost all its rows in the store the call leaves: the executor hands the frame over
  by reference and restores nothing.
\<close>

theorem execute_code_mutates_dataset:
  "\<exists>code_text. \<forall>dataframe h. \<exists>r.
     execute_code py_exec code_text dataframe h
       = Returns r (h\<lparr>frames := (frames h)(dataframe := [])\<rparr>)
     \<and> execution_result.success r"
proof -
  have "\<forall>dataframe h. \<exists>r.
     execute_code py_exec ''df.drop(df.index, inplace=True)'' dataframe h
       = Returns r (h\<lparr>frames := (frames h)(dataframe := [])\<rparr>)
     \<and> execution_result.success r"
    by (simp add: execute_code_def py_exec_def BUMP_COUNTER_def RAISE_UNPRINTABLE_def READ_CLOCK_def initial_namespace_def)
  then show ?thesis by blast
qed

section \<open>The orchestrator: the envelopes it returns\<close>

text \<open>
  C6.  When no code is extracted from the response, the orchestrator returns success
  false, the fixed answer text, the raw response as explanation, no code and the fixed
  error text, and leaves the store as it was.
\<close>

theorem ask_no_code:
  "get_data_summary h = Inr data_context \<Longrightarrow>
   create data_context question = Inr response_text \<Longrightarrow>
   extract_code response_text = None \<Longrightarrow>
   ask_financial_question ex create question h =
     Returns \<lparr>answer = PyStr NO_CODE_ANSWER, code = None, explanation = response_text,
              success = False, error = Some NO_CODE_ERROR\<rparr> h"
  by (simp add: ask_financial_question_def no_code_envelope_def)

theorem ask_no_code_witness:
  "get_data_summary sample_store = Inr sample_summary \<and>
   fixed_reply ''Revenue was high.'' sample_summary ''What was total revenue?''
     = Inr ''Revenue was high.'' \<and>
   extract_code ''Revenue was high.'' = None \<and>
   ask_financial_question py_exec (fixed_reply ''Revenue was high.'')
       ''What was total revenue?'' sample_store =
     Returns \<lparr>answer = PyStr NO_CODE_ANSWER, code = None, explanation = ''Revenue was high.'',
              success = False, error = Some NO_CODE_ERROR\<rparr> sample_store"
proof -
  have a: "get_data_summary sample_store = Inr sample_summary"
    by (rule get_data_summary_sample)
  have b: "fixed_reply ''Revenue was high.'' sample_summary ''What was total revenue?''
     = Inr ''Revenue was high.''"
    by (simp add: fixed_reply_def)
  have c: "extract_code ''Revenue was high.'' = None"
    by (simp add: extract_code_def re_search_code_def DELIM_OPEN_def)
  from ask_no_code [where h = sample_store and create = "fixed_reply ''Revenue was high.''"
      and ex = py_exec, OF a b c] a b c
  show ?thesis by blast
qed

text \<open>
  C10, as stated, fails when the blank pair is not the matched one: the code of an
  earlier pair is extracted and executed.
\<close>

theorem ask_blank_code_counterexample:
  "ask_financial_question py_exec (fixed_reply ''<code>result = 1</code><code> </code>'')
       ''What was total revenue?'' sample_store =
     Returns \<lparr>answer = PyInt 1, code = Some ''result = 1'', explanation = [],
              success = True, error = None\<rparr> sample_store"
  by (simp add: ask_financial_question_def get_data_summary_sample fixed_reply_def
      extract_code_def re_search_code_def explanation_of_def str_contains_def str_strip_def
      is_space_def DELIM_OPEN_def DELIM_CLOSE_def str_split.simps execute_code_def
      py_exec_def BUMP_COUNTER_def RAISE_UNPRINTABLE_def READ_CLOCK_def initial_namespace_def is_int_literal_def is_digit_def int_literal_def)

text \<open>
  C10, amended.  When the matched pair (no open tag before it) encloses only whitespace
  or nothing, the orchestrator takes the no-code branch: success false, the fixed
  answer and error texts, the raw response as explanation, nothing executed and the
  store untouched, whatever \<open>exec\<close> would do.
\<close>

theorem ask_blank_code:
  assumes "get_data_summary h = Inr data_context"
    and "create data_context question = Inr (pre @ DELIM_OPEN @ blank @ DELIM_CLOSE @ suf)"
    and "\<not> sublist DELIM_OPEN pre"
    and "list_all is_space blank"
  shows "ask_financial_question ex create question h =
     Returns \<lparr>answer = PyStr NO_CODE_ANSWER, code = None,
              explanation = pre @ DELIM_OPEN @ blank @ DELIM_CLOSE @ suf,
              success = False, error = Some NO_CODE_ERROR\<rparr> h"
proof -
  from re_search_code_pair [OF assms(3) blank_no_close [OF assms(4)]]
  have "extract_code (pre @ DELIM_OPEN @ blank @ DELIM_CLOSE @ suf) = Some []"
    by (simp add: extract_code_def str_strip_blank [OF assms(4)])
  with assms(1,2) show ?thesis
    by (simp add: ask_financial_question_def no_code_envelope_def)
qed

theorem ask_blank_code_witness:
  "get_data_summary sample_store = Inr sample_summary
   \<and> fixed_reply (''Here: '' @ DELIM_OPEN @ '' '' @ DELIM_CLOSE @ '' done'') sample_summary
        ''What was total revenue?'' = Inr (''Here: '' @ DELIM_OPEN @ '' '' @ DELIM_CLOSE @ '' done'')
   \<and> \<not> sublist DELIM_OPEN ''Here: '' \<and> list_all is_space '' ''
   \<and> ask_financial_question py_exec
        (fixed_reply (''Here: '' @ DELIM_OPEN @ '' '' @ DELIM_CLOSE @ '' done''))
        ''What was total revenue?'' sample_store =
      Returns \<lparr>answer = PyStr NO_CODE_ANSWER, code = None,
               explanation = ''Here: '' @ DELIM_OPEN @ '' '' @ DELIM_CLOSE @ '' done'',
               success = False, error = Some NO_CODE_ERROR\<rparr> sample_store"
proof -
  have a: "get_data_summary sample_store = Inr sample_summary"
    by (rule get_data_summary_sample)
  have b: "fixed_reply (''Here: '' @ DELIM_OPEN @ '' '' @ DELIM_CLOSE @ '' done'') sample_summary
        ''What was total revenue?'' = Inr (''Here: '' @ DELIM_OPEN @ '' '' @ DELIM_CLOSE @ '' done'')"
    by (simp add: fixed_reply_def)
  have c: "\<not> sublist DELIM_OPEN ''Here: ''"
    by (simp add: str_partition_None_iff [symmetric] DELIM_OPEN_def)
  have d: "list_all is_space '' ''" by (simp add: is_space_def)
  from ask_blank_code [where h = sample_store and ex = py_exec
      and create = "fixed_reply (''Here: '' @ DELIM_OPEN @ '' '' @ DELIM_CLOSE @ '' done'')",
      OF a b c d] a b c d
  show ?thesis by blast
qed



lemma ask_result_42:
  "ask_financial_question py_exec (fixed_reply ''<code>result = 42</code> Sets it.'')
       ''What was total revenue?'' sample_store =
     Returns \<lparr>answer = PyInt 42, code = Some ''result = 42'', explanation = ''Sets it.'',
              success = True, error = None\<rparr> sample_store"
  by (simp add: ask_financial_question_def get_data_summary_sample fixed_reply_def
      extract_code_def re_search_code_def explanation_of_def str_contains_def str_strip_def
      is_space_def DELIM_OPEN_def DELIM_CLOSE_def str_split.simps execute_code_def
      py_exec_def BUMP_COUNTER_def RAISE_UNPRINTABLE_def READ_CLOCK_def initial_namespace_def is_int_literal_def is_digit_def int_literal_def)


lemma get_data_summary_frames:
  "frames h' = frames h \<Longrightarrow> get_data_summary h' = get_data_summary h"
  by (simp only: get_data_summary_def)

lemma extract_bump:
  "extract_code BUMP_REPLY = Some BUMP_COUNTER \<and> explanation_of BUMP_REPLY = []
   \<and> BUMP_COUNTER \<noteq> []"
  by (simp add: BUMP_REPLY_def BUMP_COUNTER_def extract_code_def re_search_code_def
      explanation_of_def str_contains_def str_strip_def is_space_def DELIM_OPEN_def
      DELIM_CLOSE_def str_split.simps)

lemma ask_bump:
  assumes "counter_of (pd_attrs h ''_n'') = Some n"
    and "get_data_summary h = Inr data_context"
  shows "ask_financial_question py_exec (fixed_reply BUMP_REPLY) question h =
     Returns \<lparr>answer = PyInt (n + 1), code = Some BUMP_COUNTER, explanation = [],
              success = True, error = None\<rparr>
       (h\<lparr>pd_attrs := (pd_attrs h)(''_n'' \<mapsto> PyInt (n + 1))\<rparr>)"
proof -
  have "py_exec BUMP_COUNTER (initial_namespace df) h =
     Returns ((initial_namespace df)(''result'' \<mapsto> PyInt (n + 1)))
       (h\<lparr>pd_attrs := (pd_attrs h)(''_n'' \<mapsto> PyInt (n + 1))\<rparr>)"
    using assms(1)
    by (simp add: py_exec_def initial_namespace_def BUMP_COUNTER_def RAISE_UNPRINTABLE_def
        READ_CLOCK_def)
  then have "execute_code py_exec BUMP_COUNTER df h =
     Returns \<lparr>execution_result.success = True, result = PyInt (n + 1), error = None\<rparr>
       (h\<lparr>pd_attrs := (pd_attrs h)(''_n'' \<mapsto> PyInt (n + 1))\<rparr>)"
    by (simp add: execute_code_def)
  with assms(2) extract_bump show ?thesis
    by (simp add: ask_financial_question_def fixed_reply_def)
qed

lemma extract_clock:
  "extract_code CLOCK_REPLY = Some READ_CLOCK \<and> explanation_of CLOCK_REPLY = []
   \<and> READ_CLOCK \<noteq> []"
  by (simp add: CLOCK_REPLY_def READ_CLOCK_def extract_code_def re_search_code_def
      explanation_of_def str_contains_def str_strip_def is_space_def DELIM_OPEN_def
      DELIM_CLOSE_def str_split.simps)

lemma ask_clock:
  assumes "get_data_summary h = Inr data_context"
  shows "ask_financial_question py_exec (fixed_reply CLOCK_REPLY) question h =
     Returns \<lparr>answer = PyInt (clock h), code = Some READ_CLOCK, explanation = [],
              success = True, error = None\<rparr> h"
proof -
  have "py_exec READ_CLOCK (initial_namespace df) h =
     Returns ((initial_namespace df)(''time'' \<mapsto> PyModule ''time'',
                ''result'' \<mapsto> PyInt (clock h))) h"
    by (simp add: py_exec_def BUMP_COUNTER_def RAISE_UNPRINTABLE_def READ_CLOCK_def)
  then have "execute_code py_exec READ_CLOCK df h =
     Returns \<lparr>execution_result.success = True, result = PyInt (clock h), error = None\<rparr> h"
    by (simp add: execute_code_def)
  with assms extract_clock show ?thesis
    by (simp add: ask_financial_question_def fixed_reply_def)
qed

text \<open>
  C9, as stated, fails at two replies.  The question and the reply are fixed and the
  executed code leaves the dataset as it was.  The first code counts its runs in an
  attribute of the shared pandas module, and the two envelopes carry the answers 1 and 2,
  even with the clock standing still.  The second code reads the clock, and the two
  envelopes carry the two readings.
\<close>

theorem ask_twice_counterexample:
  "ask_twice py_exec (fixed_reply BUMP_REPLY) ''How many times?'' 0 sample_store =
     Returns (\<lparr>answer = PyInt 1, code = Some BUMP_COUNTER, explanation = [],
               success = True, error = None\<rparr>,
              \<lparr>answer = PyInt 2, code = Some BUMP_COUNTER, explanation = [],
               success = True, error = None\<rparr>) (bumped_store 2)
   \<and> frames (bumped_store 2) = frames sample_store
   \<and> ask_twice py_exec (fixed_reply CLOCK_REPLY) ''What time is it?'' 5 sample_store =
     Returns (\<lparr>answer = PyInt 0, code = Some READ_CLOCK, explanation = [],
               success = True, error = None\<rparr>,
              \<lparr>answer = PyInt 5, code = Some READ_CLOCK, explanation = [],
               success = True, error = None\<rparr>) (sample_store\<lparr>clock := 5\<rparr>)
   \<and> frames (sample_store\<lparr>clock := 5\<rparr>) = frames sample_store"
proof -
  have c0: "counter_of (pd_attrs sample_store ''_n'') = Some 0"
    by (simp add: sample_store_def empty_store_def)
  have s1: "sample_store\<lparr>pd_attrs := (pd_attrs sample_store)(''_n'' \<mapsto> PyInt (0 + 1))\<rparr>
      = bumped_store 1"
    by (simp add: bumped_store_def sample_store_def empty_store_def)
  have one: "ask_financial_question py_exec (fixed_reply BUMP_REPLY) ''How many times?''
      sample_store =
     Returns \<lparr>answer = PyInt 1, code = Some BUMP_COUNTER, explanation = [],
              success = True, error = None\<rparr> (bumped_store 1)"
    using ask_bump [OF c0 get_data_summary_sample, of "''How many times?''"]
    by (simp only: s1) simp
  have still: "(bumped_store 1)\<lparr>clock := 0\<rparr> = bumped_store 1"
    by (simp add: bumped_store_def sample_store_def empty_store_def)
  have c1: "counter_of (pd_attrs (bumped_store 1) ''_n'') = Some 1"
    by (simp add: bumped_store_def)
  have d1: "get_data_summary (bumped_store 1) = Inr sample_summary"
    using get_data_summary_frames [of "bumped_store 1" sample_store]
    by (simp add: bumped_store_def get_data_summary_sample)
  have s2: "(bumped_store 1)\<lparr>pd_attrs := (pd_attrs (bumped_store 1))(''_n'' \<mapsto> PyInt (1 + 1))\<rparr>
      = bumped_store 2"
    by (simp add: bumped_store_def)
  have two: "ask_financial_question py_exec (fixed_reply BUMP_REPLY) ''How many times?''
      (bumped_store 1) =
     Returns \<lparr>answer = PyInt 2, code = Some BUMP_COUNTER, explanation = [],
              success = True, error = None\<rparr> (bumped_store 2)"
    using ask_bump [OF c1 d1, of "''How many times?''"]
    by (simp only: s2) simp
  have k0: "clock sample_store = 0"
    by (simp add: sample_store_def empty_store_def)
  have d5: "get_data_summary (sample_store\<lparr>clock := 5\<rparr>) = Inr sample_summary"
    using get_data_summary_frames [of "sample_store\<lparr>clock := 5\<rparr>" sample_store]
    by (simp add: get_data_summary_sample)
  have three: "ask_financial_question py_exec (fixed_reply CLOCK_REPLY) ''What time is it?''
      sample_store =
     Returns \<lparr>answer = PyInt 0, code = Some READ_CLOCK, explanation = [],
              success = True, error = None\<rparr> sample_store"
    using ask_clock [OF get_data_summary_sample, of "''What time is it?''"] k0 by simp
  have four: "ask_financial_question py_exec (fixed_reply CLOCK_REPLY) ''What time is it?''
      (sample_store\<lparr>clock := 5\<rparr>) =
     Returns \<lparr>answer = PyInt 5, code = Some READ_CLOCK, explanation = [],
              success = True, error = None\<rparr> (sample_store\<lparr>clock := 5\<rparr>)"
    using ask_clock [OF d5, of "''What time is it?''"] by simp
  from one two still three four show ?thesis
    by (simp add: ask_twice_def bumped_store_def)
qed

text \<open>
  C9, amended.  When executing the code extracted from the reply is repeatable on the
  store of the first call (the run leaves the dataset and the pandas module as it found
  them, and its result does not depend on the clock), the second call returns the
  envelope of the first, whatever the clock reads by then.  The orchestrator keeps
  nothing of its own between calls, and each run starts from a fresh namespace.
\<close>

theorem ask_twice_identical:
  assumes "ask_financial_question ex create question h = Returns first h1"
    and "\<forall>data_context response_text code_text.
           get_data_summary h = Inr data_context
           \<and> create data_context question = Inr response_text
           \<and> extract_code response_text = Some code_text
           \<longrightarrow> repeatable ex code_text h"
  shows "\<exists>h2. ask_twice ex create question later h = Returns (first, first) h2"
proof -
  from assms(1) obtain data_context where dc: "get_data_summary h = Inr data_context"
    by (cases "get_data_summary h") (auto simp: ask_financial_question_def)
  from assms(1) dc obtain response_text where
    rt: "create data_context question = Inr response_text"
    by (cases "create data_context question") (auto simp: ask_financial_question_def)
  have same: "frames h1 = frames h \<and> pd_attrs h1 = pd_attrs h
    \<and> (\<exists>h2. ask_financial_question ex create question (h\<lparr>clock := later\<rparr>)
           = Returns first h2)"
  proof (cases "extract_code response_text")
    case None
    with assms(1) dc rt get_data_summary_frames [of "h\<lparr>clock := later\<rparr>" h]
    show ?thesis by (simp add: ask_financial_question_def)
  next
    case (Some code_text)
    show ?thesis
    proof (cases "code_text = []")
      case True
      with Some assms(1) dc rt get_data_summary_frames [of "h\<lparr>clock := later\<rparr>" h]
      show ?thesis by (simp add: ask_financial_question_def)
    next
      case False
      from assms(2) dc rt Some have rep: "repeatable ex code_text h" by blast
      from False Some assms(1) dc rt obtain r where
        run: "execute_code ex code_text df h = Returns r h1"
        by (cases "execute_code ex code_text df h")
          (auto simp: ask_financial_question_def Let_def split: if_splits)
      from rep run have kept: "frames h1 = frames h \<and> pd_attrs h1 = pd_attrs h"
        by (simp add: repeatable_def)
      from rep run have
        "returned (execute_code ex code_text df (h\<lparr>clock := later\<rparr>)) = Some r"
        by (simp add: repeatable_def)
      then obtain h2 where
        again: "execute_code ex code_text df (h\<lparr>clock := later\<rparr>) = Returns r h2"
        by (cases "execute_code ex code_text df (h\<lparr>clock := later\<rparr>)") auto
      from False Some assms(1) dc rt run have
        "ask_financial_question ex create question h
           = (if execution_result.success r
              then Returns \<lparr>answer = execution_result.result r, code = Some code_text,
                     explanation = explanation_of response_text,
                     success = True, error = None\<rparr> h1
              else Returns
                    \<lparr>answer = PyStr (''I wrote code but it had an error: ''
                               @ (case execution_result.error r of
                                    Some msg \<Rightarrow> msg | None \<Rightarrow> ''None'')),
                     code = Some code_text, explanation = explanation_of response_text,
                     success = False, error = execution_result.error r\<rparr> h1)"
        by (simp add: ask_financial_question_def Let_def)
      moreover from False Some dc rt again
        get_data_summary_frames [of "h\<lparr>clock := later\<rparr>" h] have
        "ask_financial_question ex create question (h\<lparr>clock := later\<rparr>)
           = (if execution_result.success r
              then Returns \<lparr>answer = execution_result.result r, code = Some code_text,
                     explanation = explanation_of response_text,
                     success = True, error = None\<rparr> h2
              else Returns
                    \<lparr>answer = PyStr (''I wrote code but it had an error: ''
                               @ (case execution_result.error r of
                                    Some msg \<Rightarrow> msg | None \<Rightarrow> ''None'')),
                     code = Some code_text, explanation = explanation_of response_text,
                     success = False, error = execution_result.error r\<rparr> h2)"
        by (simp add: ask_financial_question_def Let_def)
      ultimately have
        "ask_financial_question ex create question (h\<lparr>clock := later\<rparr>) = Returns first h2"
        using assms(1) by (auto split: if_splits)
      with kept show ?thesis by blast
    qed
  qed
  then obtain h2 where
    second: "ask_financial_question ex create question (h\<lparr>clock := later\<rparr>)
       = Returns first h2"
    by blast
  from same have "h1\<lparr>clock := later\<rparr> = h\<lparr>clock := later\<rparr>" by simp
  with second have
    "ask_financial_question ex create question (h1\<lparr>clock := later\<rparr>) = Returns first h2"
    by (simp only:)
  with assms(1) have "ask_twice ex create question later h = Returns (first, first) h2"
    by (simp add: ask_twice_def)
  then show ?thesis by blast
qed

theorem ask_twice_identical_witness:
  "ask_financial_question py_exec (fixed_reply ''<code>result = 42</code> Sets it.'')
       ''What was total revenue?'' sample_store =
     Returns \<lparr>answer = PyInt 42, code = Some ''result = 42'', explanation = ''Sets it.'',
              success = True, error = None\<rparr> sample_store
   \<and> repeatable py_exec ''result = 42'' sample_store
   \<and> (\<exists>h2. ask_twice py_exec (fixed_reply ''<code>result = 42</code> Sets it.'')
       ''What was total revenue?'' 5 sample_store =
     Returns (\<lparr>answer = PyInt 42, code = Some ''result = 42'', explanation = ''Sets it.'',
               success = True, error = None\<rparr>,
              \<lparr>answer = PyInt 42, code = Some ''result = 42'', explanation = ''Sets it.'',
               success = True, error = None\<rparr>) h2)"
proof -
  have code: "extract_code ''<code>result = 42</code> Sets it.'' = Some ''result = 42''"
    by (simp add: extract_code_def re_search_code_def str_strip_def is_space_def
        DELIM_OPEN_def DELIM_CLOSE_def)
  have run: "repeatable py_exec ''result = 42'' sample_store"
    by (simp add: repeatable_def execute_code_def py_exec_def BUMP_COUNTER_def
        RAISE_UNPRINTABLE_def READ_CLOCK_def initial_namespace_def is_int_literal_def
        is_digit_def int_literal_def)
  have unchanged: "\<forall>data_context response_text code_text.
           get_data_summary sample_store = Inr data_context
           \<and> fixed_reply ''<code>result = 42</code> Sets it.'' data_context
                ''What was total revenue?'' = Inr response_text
           \<and> extract_code response_text = Some code_text
           \<longrightarrow> repeatable py_exec code_text sample_store"
    using code run by (auto simp: fixed_reply_def)
  from ask_twice_identical [OF ask_result_42 unchanged, of 5] ask_result_42 run
  show ?thesis by simp
qed

end
